theory Spec2Isabelle
  imports Complex_Main
begin

section \<open>Values: floats, errors, scalars and arrays\<close>

text \<open>
  The module \<^verbatim>\<open>kats/detectors/detector_consts.py\<close> computes on IEEE doubles through
  numpy and pandas. The embedding keeps the special values of a double apart from the
  finite ones: a finite double is idealised as a real number (rounding, overflow and the
  sign of zero are not modelled), while \<open>+inf\<close>, \<open>-inf\<close> and \<open>nan\<close> are constructors of
  their own, with the arithmetic numpy gives them (\<open>0/0 = nan\<close>, \<open>x/0 = \<plusminus>inf\<close>, every
  comparison with \<open>nan\<close> false).
\<close>

datatype npfloat = Fin real | PInf | NInf | NaN

fun fneg :: "npfloat \<Rightarrow> npfloat" where
  "fneg (Fin a) = Fin (- a)"
| "fneg PInf = NInf"
| "fneg NInf = PInf"
| "fneg NaN = NaN"

fun fadd :: "npfloat \<Rightarrow> npfloat \<Rightarrow> npfloat" where
  "fadd NaN _ = NaN"
| "fadd _ NaN = NaN"
| "fadd (Fin a) (Fin b) = Fin (a + b)"
| "fadd PInf NInf = NaN"
| "fadd NInf PInf = NaN"
| "fadd PInf _ = PInf"
| "fadd _ PInf = PInf"
| "fadd NInf _ = NInf"
| "fadd _ NInf = NInf"

definition fsub :: "npfloat \<Rightarrow> npfloat \<Rightarrow> npfloat" where
  "fsub a b = fadd a (fneg b)"

fun fmul :: "npfloat \<Rightarrow> npfloat \<Rightarrow> npfloat" where
  "fmul NaN _ = NaN"
| "fmul _ NaN = NaN"
| "fmul (Fin a) (Fin b) = Fin (a * b)"
| "fmul (Fin a) PInf = (if a = 0 then NaN else if 0 < a then PInf else NInf)"
| "fmul (Fin a) NInf = (if a = 0 then NaN else if 0 < a then NInf else PInf)"
| "fmul PInf (Fin b) = (if b = 0 then NaN else if 0 < b then PInf else NInf)"
| "fmul NInf (Fin b) = (if b = 0 then NaN else if 0 < b then NInf else PInf)"
| "fmul PInf PInf = PInf"
| "fmul NInf NInf = PInf"
| "fmul PInf NInf = NInf"
| "fmul NInf PInf = NInf"

fun fdiv :: "npfloat \<Rightarrow> npfloat \<Rightarrow> npfloat" where
  "fdiv NaN _ = NaN"
| "fdiv _ NaN = NaN"
| "fdiv (Fin a) (Fin b) =
     (if b \<noteq> 0 then Fin (a / b) else if a = 0 then NaN else if 0 < a then PInf else NInf)"
| "fdiv (Fin a) _ = Fin 0"
| "fdiv PInf (Fin b) = (if 0 \<le> b then PInf else NInf)"
| "fdiv NInf (Fin b) = (if 0 \<le> b then NInf else PInf)"
| "fdiv _ _ = NaN"

fun fsqrt :: "npfloat \<Rightarrow> npfloat" where
  "fsqrt (Fin a) = (if 0 \<le> a then Fin (sqrt a) else NaN)"
| "fsqrt PInf = PInf"
| "fsqrt NInf = NaN"
| "fsqrt NaN = NaN"

fun fabs :: "npfloat \<Rightarrow> npfloat" where
  "fabs (Fin a) = Fin \<bar>a\<bar>"
| "fabs PInf = PInf"
| "fabs NInf = PInf"
| "fabs NaN = NaN"

fun fge :: "npfloat \<Rightarrow> npfloat \<Rightarrow> bool" where
  "fge NaN _ = False"
| "fge _ NaN = False"
| "fge (Fin a) (Fin b) = (b \<le> a)"
| "fge PInf _ = True"
| "fge _ NInf = True"
| "fge _ _ = False"

fun flt :: "npfloat \<Rightarrow> npfloat \<Rightarrow> bool" where
  "flt NaN _ = False"
| "flt _ NaN = False"
| "flt (Fin a) (Fin b) = (a < b)"
| "flt PInf _ = False"
| "flt _ NInf = False"
| "flt _ _ = True"

definition fsum :: "npfloat list \<Rightarrow> npfloat" where
  "fsum xs = foldl fadd (Fin 0) xs"

text \<open>
  \<^verbatim>\<open>np.mean\<close> divides the sum by the count, so the mean of an empty array is
  \<open>0/0 = nan\<close>. \<^verbatim>\<open>np.var(vals, ddof=1)\<close> divides the sum of squared deviations from
  that mean by \<open>max (n - 1) 0\<close>, so it is \<open>nan\<close> for \<open>n = 0\<close> and for \<open>n = 1\<close>.
\<close>

definition np_mean :: "npfloat list \<Rightarrow> npfloat" where
  "np_mean xs = fdiv (fsum xs) (Fin (real (length xs)))"

definition np_var_ddof1 :: "npfloat list \<Rightarrow> npfloat" where
  "np_var_ddof1 xs =
     (let m = np_mean xs;
          sq = map (\<lambda>x. fmul (fsub x m) (fsub x m)) xs
      in fdiv (fsum sq) (Fin (real (length xs - 1))))"

text \<open>The exceptions the module raises itself or lets through from pandas and numpy.\<close>

datatype py_error =
    ValueError string
  | TypeError string
  | KeyError string
  | AttributeError string
  | IndexError
  | IndexingError string
  | ZeroDivisionError

text \<open>
  \<^verbatim>\<open>Union[float, ArrayLike]\<close>: a Python \<^verbatim>\<open>float\<close> (the literals \<^verbatim>\<open>0.0\<close> and
  \<^verbatim>\<open>np.nan\<close>), a numpy scalar (what \<^verbatim>\<open>np.mean\<close>, \<^verbatim>\<open>np.var\<close> and \<^verbatim>\<open>np.sqrt\<close> return),
  or a one-dimensional array. The two scalars differ in one place: dividing a Python
  float by a Python zero raises, numpy division returns \<open>inf\<close> or \<open>nan\<close>.
\<close>

datatype val = PyFloat npfloat | NpFloat npfloat | NdArray "npfloat list"

definition np_zeros :: "int \<Rightarrow> py_error + val" where
  "np_zeros k =
     (if k < 0 then Inl (ValueError ''negative dimensions are not allowed'')
      else Inr (NdArray (replicate (nat k) (Fin 0))))"

definition getitem :: "val \<Rightarrow> nat \<Rightarrow> py_error + npfloat" where
  "getitem v i =
     (case v of
        NdArray xs \<Rightarrow> if i < length xs then Inr (xs ! i) else Inl IndexError
      | _ \<Rightarrow> Inl IndexError)"

section \<open>Tables and the time-series container\<close>

type_synonym time = int

text \<open>
  A pandas \<^verbatim>\<open>DataFrame\<close> as the module uses it: the \<^verbatim>\<open>time\<close> column and the ordered
  list of named float columns. Column names are taken to be distinct and different from
  \<^verbatim>\<open>time\<close>; a lookup takes the first column of that name.
\<close>

record dataframe =
  df_time :: "time list"
  df_cols :: "(string \<times> npfloat list) list"

definition get_col :: "dataframe \<Rightarrow> string \<Rightarrow> npfloat list option" where
  "get_col df c = map_of (df_cols df) c"

definition has_col :: "dataframe \<Rightarrow> string \<Rightarrow> bool" where
  "has_col df c = (c \<in> set (map fst (df_cols df)))"

text \<open>\<^verbatim>\<open>df[c] = values\<close>: overwrite the column when it exists, append it otherwise.\<close>

definition set_col :: "dataframe \<Rightarrow> string \<Rightarrow> npfloat list \<Rightarrow> dataframe" where
  "set_col df c vs =
     (if has_col df c
      then df\<lparr>df_cols := map (\<lambda>(n, xs). if n = c then (n, vs) else (n, xs)) (df_cols df)\<rparr>
      else df\<lparr>df_cols := df_cols df @ [(c, vs)]\<rparr>)"

text \<open>\<^verbatim>\<open>df.columns = ["time"] + names\<close>: pandas raises on a length mismatch.\<close>

definition set_columns :: "dataframe \<Rightarrow> string list \<Rightarrow> py_error + dataframe" where
  "set_columns df names =
     (if length names \<noteq> length (df_cols df) then Inl (ValueError ''Length mismatch'')
      else Inr (df\<lparr>df_cols := zip names (map snd (df_cols df))\<rparr>))"

definition keep_rows :: "bool list \<Rightarrow> 'a list \<Rightarrow> 'a list" where
  "keep_rows keep xs = map snd (filter fst (zip keep xs))"

definition select_rows :: "bool list \<Rightarrow> dataframe \<Rightarrow> dataframe" where
  "select_rows keep df =
     \<lparr>df_time = keep_rows keep (df_time df),
      df_cols = map (\<lambda>(n, xs). (n, keep_rows keep xs)) (df_cols df)\<rparr>"

text \<open>\<^verbatim>\<open>df.loc[(df.time >= start_time) & (df.time < end_time)]\<close>\<close>

definition loc_between :: "time \<Rightarrow> time \<Rightarrow> dataframe \<Rightarrow> dataframe" where
  "loc_between s e df = select_rows (map (\<lambda>t. s \<le> t \<and> t < e) (df_time df)) df"

text \<open>
  \<^verbatim>\<open>pd.concat([a, b])\<close>: rows of \<open>a\<close> then rows of \<open>b\<close>, over the union of the columns
  (those of \<open>a\<close> first); a column missing on one side is filled with \<open>nan\<close> there.
\<close>

definition pd_concat :: "dataframe \<Rightarrow> dataframe \<Rightarrow> dataframe" where
  "pd_concat a b =
     (let na = length (df_time a); nb = length (df_time b);
          fill = (\<lambda>df n c. case get_col df c of Some xs \<Rightarrow> xs | None \<Rightarrow> replicate n NaN);
          names = map fst (df_cols a) @ filter (\<lambda>c. \<not> has_col a c) (map fst (df_cols b))
      in \<lparr>df_time = df_time a @ df_time b,
          df_cols = map (\<lambda>c. (c, fill a na c @ fill b nb c)) names\<rparr>)"

text \<open>
  Modelled from the spec: the container \<^verbatim>\<open>TimeSeriesData\<close> of \<^verbatim>\<open>kats.consts\<close>, which
  the module imports and which is not part of the sources at hand. The spec describes
  it as a time-aligned container with a timestamp column and one (univariate) or many
  named (multivariate) value columns, convertible to a flat row-oriented table.
\<close>

datatype tsvalue = Series "npfloat list" | Frame "(string \<times> npfloat list) list"

record tsd =
  ts_time :: "time list"
  ts_value :: tsvalue

definition is_univariate :: "tsd \<Rightarrow> bool" where
  "is_univariate d = (case ts_value d of Series _ \<Rightarrow> True | Frame _ \<Rightarrow> False)"

definition value_columns :: "tsd \<Rightarrow> string list" where
  "value_columns d = (case ts_value d of Series _ \<Rightarrow> [] | Frame cs \<Rightarrow> map fst cs)"

definition to_dataframe :: "tsd \<Rightarrow> dataframe" where
  "to_dataframe d =
     \<lparr>df_time = ts_time d,
      df_cols = (case ts_value d of Series xs \<Rightarrow> [(''value'', xs)] | Frame cs \<Rightarrow> cs)\<rparr>"

section \<open>ChangePointInterval\<close>

record single_spike =
  spike_time :: time
  spike_value :: npfloat
  n_sigma :: npfloat

text \<open>
  The spike list is a flat list in the univariate branch and a list of per-column lists
  in the multivariate branch.
\<close>

datatype spike_list = Spikes "single_spike list" | SpikesPerColumn "single_spike list list"

text \<open>
  The attributes of the class. The back-reference \<^verbatim>\<open>previous_interval\<close> is never read
  or written by the module and is left out. The threshold is a finite float, and the
  column names are names that \<^verbatim>\<open>DataFrame.query\<close> can parse.
\<close>

record interval =
  start_time :: time
  end_time :: time
  all_spikes :: "spike_list option"
  spike_std_threshold :: real
  data_df :: "dataframe option"
  ts_cols :: "string list"
  num_series :: int

definition ChangePointInterval :: "time \<Rightarrow> time \<Rightarrow> int \<Rightarrow> interval" where
  "ChangePointInterval s e k =
     \<lparr>start_time = s, end_time = e, all_spikes = None, spike_std_threshold = 2,
      data_df = None, ts_cols = [''value''], num_series = k\<rparr>"

text \<open>What \<^verbatim>\<open>.values\<close> gives: a flat array, or a two-dimensional one kept by columns.\<close>

datatype ndarray = Arr1 "npfloat list" | Arr2 nat "npfloat list list"

fun get_cols :: "dataframe \<Rightarrow> string list \<Rightarrow> py_error + npfloat list list" where
  "get_cols df [] = Inr []"
| "get_cols df (c # cs) =
     (case get_col df c of
        None \<Rightarrow> Inl (KeyError c)
      | Some xs \<Rightarrow> (case get_cols df cs of Inl e \<Rightarrow> Inl e | Inr r \<Rightarrow> Inr (xs # r)))"

text \<open>The getter of the property \<^verbatim>\<open>data\<close>.\<close>

definition data :: "interval \<Rightarrow> py_error + ndarray option" where
  "data self =
     (case data_df self of
        None \<Rightarrow> Inr None
      | Some df \<Rightarrow>
          if num_series self = 1
          then (case get_col df ''value'' of
                  None \<Rightarrow> Inl (AttributeError ''value'')
                | Some xs \<Rightarrow> Inr (Some (Arr1 xs)))
          else (case get_cols df (ts_cols self) of
                  Inl e \<Rightarrow> Inl e
                | Inr cs \<Rightarrow> Inr (Some (Arr2 (length (df_time df)) cs))))"

text \<open>The setter of the property \<^verbatim>\<open>data\<close>: binding a series to the interval.\<close>

definition set_data :: "tsd \<Rightarrow> interval \<Rightarrow> py_error + interval" where
  "set_data d self =
     (let self1 = (if \<not> is_univariate d
                   then self\<lparr>ts_cols := value_columns d,
                             num_series := int (length (value_columns d))\<rparr>
                   else self)
      in case set_columns (to_dataframe d) (ts_cols self1) of
           Inl e \<Rightarrow> Inl e
         | Inr all_data_df \<Rightarrow>
             Inr (self1\<lparr>data_df :=
                    Some (loc_between (start_time self1) (end_time self1) all_data_df)\<rparr>))"

definition extend_data :: "tsd \<Rightarrow> interval \<Rightarrow> py_error + interval" where
  "extend_data d self =
     (case set_columns (to_dataframe d) (ts_cols self) of
        Inl e \<Rightarrow> Inl e
      | Inr new_data_df \<Rightarrow>
          (let new_data_df' = (case data_df self of
                                 None \<Rightarrow> new_data_df
                               | Some df \<Rightarrow> pd_concat df new_data_df)
           in Inr (self\<lparr>data_df :=
                     Some (loc_between (start_time self) (end_time self) new_data_df')\<rparr>)))"

definition len :: "interval \<Rightarrow> nat" where
  "len self = (case data_df self of None \<Rightarrow> 0 | Some df \<Rightarrow> length (df_time df))"

definition mean_val :: "interval \<Rightarrow> py_error + val" where
  "mean_val self =
     (if num_series self = 1
      then (case data self of
              Inl e \<Rightarrow> Inl e
            | Inr None \<Rightarrow> Inr (PyFloat (Fin 0))
            | Inr (Some (Arr1 vals)) \<Rightarrow> Inr (NpFloat (np_mean vals))
            | Inr (Some (Arr2 n cs)) \<Rightarrow> Inr (NpFloat (np_mean (concat cs))))
      else (case data_df self of
              None \<Rightarrow> np_zeros (num_series self)
            | Some df \<Rightarrow>
                (case get_cols df (ts_cols self) of
                   Inl e \<Rightarrow> Inl e
                 | Inr cs \<Rightarrow> Inr (NdArray (map np_mean cs)))))"

definition variance_val :: "interval \<Rightarrow> py_error + val" where
  "variance_val self =
     (if num_series self = 1
      then (case data self of
              Inl e \<Rightarrow> Inl e
            | Inr None \<Rightarrow> Inr (PyFloat (Fin 0))
            | Inr (Some (Arr1 vals)) \<Rightarrow>
                if length vals = 1 then Inr (PyFloat (Fin 0))
                else Inr (NpFloat (np_var_ddof1 vals))
            | Inr (Some (Arr2 n cs)) \<Rightarrow>
                if n = 1 then Inr (PyFloat (Fin 0))
                else Inr (NpFloat (np_var_ddof1 (concat cs))))
      else (case data_df self of
              None \<Rightarrow> np_zeros (num_series self)
            | Some df \<Rightarrow>
                if length (df_time df) = 1 then np_zeros (num_series self)
                else (case get_cols df (ts_cols self) of
                        Inl e \<Rightarrow> Inl e
                      | Inr cs \<Rightarrow> Inr (NdArray (map np_var_ddof1 cs)))))"

text \<open>
  A pandas column combined with a scalar or an array: element by element, the scalar
  broadcast; an array of another length raises.
\<close>

definition series_op ::
  "(npfloat \<Rightarrow> npfloat \<Rightarrow> npfloat) \<Rightarrow> npfloat list \<Rightarrow> val \<Rightarrow> py_error + npfloat list" where
  "series_op f xs v =
     (case v of
        PyFloat b \<Rightarrow> Inr (map (\<lambda>x. f x b) xs)
      | NpFloat b \<Rightarrow> Inr (map (\<lambda>x. f x b) xs)
      | NdArray ys \<Rightarrow>
          if length ys = length xs then Inr (map2 f xs ys)
          else Inl (ValueError ''operands could not be broadcast together''))"

definition np_sqrt :: "val \<Rightarrow> val" where
  "np_sqrt v =
     (case v of
        PyFloat a \<Rightarrow> NpFloat (fsqrt a)
      | NpFloat a \<Rightarrow> NpFloat (fsqrt a)
      | NdArray xs \<Rightarrow> NdArray (map fsqrt xs))"

text \<open>
  \<^verbatim>\<open>df.query("<zcol> >= <threshold>")\<close> followed by the comprehension over
  \<^verbatim>\<open>iterrows()\<close>: one \<open>single_spike\<close> per row whose z-score reaches the threshold, read
  from the columns \<open>c\<close> and \<open>zcol\<close> of the table.
\<close>

definition spike_rows :: "real \<Rightarrow> dataframe \<Rightarrow> string \<Rightarrow> string \<Rightarrow> single_spike list" where
  "spike_rows thr df c zcol =
     (case (get_col df c, get_col df zcol) of
        (Some vs, Some zs) \<Rightarrow>
          map (\<lambda>(t, v, z). \<lparr>spike_time = t, spike_value = v, n_sigma = z\<rparr>)
            (filter (\<lambda>(t, v, z). fge z (Fin thr)) (zip (df_time df) (zip vs zs)))
      | _ \<Rightarrow> [])"

text \<open>
  The univariate branch of \<^verbatim>\<open>_detect_spikes\<close>. The table is changed in place, so the
  interval is returned with the result, also when an exception leaves the method.
\<close>

definition detect_spikes_univariate ::
  "interval \<Rightarrow> dataframe \<Rightarrow> interval \<times> (py_error + spike_list)" where
  "detect_spikes_univariate self df =
     (case get_col df ''value'' of
        None \<Rightarrow> (self, Inl (AttributeError ''value''))
      | Some vs \<Rightarrow>
          (case mean_val self of
             Inl e \<Rightarrow> (self, Inl e)
           | Inr m \<Rightarrow>
               (case series_op fsub vs m of
                  Inl e \<Rightarrow> (self, Inl e)
                | Inr ds \<Rightarrow>
                    (case variance_val self of
                       Inl e \<Rightarrow> (self, Inl e)
                     | Inr v \<Rightarrow>
                         (case series_op fdiv ds (np_sqrt v) of
                            Inl e \<Rightarrow> (self, Inl e)
                          | Inr zs \<Rightarrow>
                              (let df' = set_col df ''z_score'' zs
                               in (self\<lparr>data_df := Some df'\<rparr>,
                                   Inr (Spikes (spike_rows (spike_std_threshold self) df'
                                                  ''value'' ''z_score'')))))))))"

definition is_float :: "val \<Rightarrow> bool" where
  "is_float v = (case v of NdArray _ \<Rightarrow> False | _ \<Rightarrow> True)"

text \<open>
  One pass of the loop over \<^verbatim>\<open>enumerate(self._ts_cols)\<close> in the multivariate branch:
  the statistics are read again from the table as it is at that moment, the column
  \<^verbatim>\<open>z_score_<c>\<close> is written, and the spikes of the column, if any, are returned.
\<close>

definition detect_spikes_column ::
  "interval \<Rightarrow> dataframe \<Rightarrow> nat \<Rightarrow> string \<Rightarrow> py_error + dataframe \<times> single_spike list" where
  "detect_spikes_column self df i c =
     (let cur = self\<lparr>data_df := Some df\<rparr> in
      case mean_val cur of
        Inl e \<Rightarrow> Inl e
      | Inr m \<Rightarrow>
      (case variance_val cur of
        Inl e \<Rightarrow> Inl e
      | Inr v \<Rightarrow>
      if is_float m \<or> is_float v
      then Inl (ValueError ''mean_val and variance_val should have type ArrayLike'')
      else
      (case get_col df c of
        None \<Rightarrow> Inl (KeyError c)
      | Some vs \<Rightarrow>
      (case getitem m i of
        Inl e \<Rightarrow> Inl e
      | Inr mi \<Rightarrow>
      (case getitem v i of
        Inl e \<Rightarrow> Inl e
      | Inr vi \<Rightarrow>
          (let zs = map (\<lambda>x. fdiv (fsub x mi) (fsqrt vi)) vs;
               df' = set_col df (''z_score_'' @ c) zs
           in Inr (df', spike_rows (spike_std_threshold self) df' c (''z_score_'' @ c))))))))"

fun detect_spikes_loop ::
  "interval \<Rightarrow> dataframe \<Rightarrow> (nat \<times> string) list \<Rightarrow> single_spike list list
     \<Rightarrow> dataframe \<times> (py_error + single_spike list list)" where
  "detect_spikes_loop self df [] spikes = (df, Inr spikes)"
| "detect_spikes_loop self df ((i, c) # rest) spikes =
     (case detect_spikes_column self df i c of
        Inl e \<Rightarrow> (df, Inl e)
      | Inr (df', found) \<Rightarrow>
          detect_spikes_loop self df' rest (if found = [] then spikes else spikes @ [found]))"

definition detect_spikes :: "interval \<Rightarrow> interval \<times> (py_error + spike_list)" where
  "detect_spikes self =
     (case data_df self of
        None \<Rightarrow> (self, Inl (ValueError ''data must be set before spike detection''))
      | Some df \<Rightarrow>
          if num_series self = 1 then detect_spikes_univariate self df
          else (case detect_spikes_loop self df (enumerate 0 (ts_cols self)) [] of
                  (df', Inl e) \<Rightarrow> (self\<lparr>data_df := Some df'\<rparr>, Inl e)
                | (df', Inr sp) \<Rightarrow> (self\<lparr>data_df := Some df'\<rparr>, Inr (SpikesPerColumn sp))))"

text \<open>The property \<^verbatim>\<open>spikes\<close>: the memo \<^verbatim>\<open>_all_spikes\<close> is filled on the first access.\<close>

definition spikes :: "interval \<Rightarrow> interval \<times> (py_error + spike_list)" where
  "spikes self =
     (case all_spikes self of
        Some sp \<Rightarrow> (self, Inr sp)
      | None \<Rightarrow>
          (case detect_spikes self of
             (self', Inl e) \<Rightarrow> (self', Inl e)
           | (self', Inr sp) \<Rightarrow> (self'\<lparr>all_spikes := Some sp\<rparr>, Inr sp)))"

section \<open>PercentageChange\<close>

text \<open>Sequencing of computations that may raise: the first exception ends the run.\<close>

fun and_then :: "py_error + 'a \<Rightarrow> ('a \<Rightarrow> py_error + 'b) \<Rightarrow> py_error + 'b" where
  "and_then (Inl e) f = Inl e"
| "and_then (Inr x) f = f x"

text \<open>
  Arithmetic on scalars and arrays. Two Python floats give a Python float, a numpy
  scalar on either side gives a numpy scalar, a scalar is broadcast over an array, and
  two arrays combine element by element when their lengths agree or one has length 1.
\<close>

definition val_binop :: "(npfloat \<Rightarrow> npfloat \<Rightarrow> npfloat) \<Rightarrow> val \<Rightarrow> val \<Rightarrow> py_error + val" where
  "val_binop f a b =
     (case (a, b) of
        (PyFloat x, PyFloat y) \<Rightarrow> Inr (PyFloat (f x y))
      | (PyFloat x, NpFloat y) \<Rightarrow> Inr (NpFloat (f x y))
      | (NpFloat x, PyFloat y) \<Rightarrow> Inr (NpFloat (f x y))
      | (NpFloat x, NpFloat y) \<Rightarrow> Inr (NpFloat (f x y))
      | (PyFloat x, NdArray ys) \<Rightarrow> Inr (NdArray (map (f x) ys))
      | (NpFloat x, NdArray ys) \<Rightarrow> Inr (NdArray (map (f x) ys))
      | (NdArray xs, PyFloat y) \<Rightarrow> Inr (NdArray (map (\<lambda>x. f x y) xs))
      | (NdArray xs, NpFloat y) \<Rightarrow> Inr (NdArray (map (\<lambda>x. f x y) xs))
      | (NdArray xs, NdArray ys) \<Rightarrow>
          if length xs = length ys then Inr (NdArray (map2 f xs ys))
          else if length xs = 1 then Inr (NdArray (map (f (hd xs)) ys))
          else if length ys = 1 then Inr (NdArray (map (\<lambda>x. f x (hd ys)) xs))
          else Inl (ValueError ''operands could not be broadcast together''))"

text \<open>True division: only Python float by Python zero raises.\<close>

definition val_div :: "val \<Rightarrow> val \<Rightarrow> py_error + val" where
  "val_div a b =
     (case (a, b) of
        (PyFloat x, PyFloat y) \<Rightarrow>
          if y = Fin 0 then Inl ZeroDivisionError else Inr (PyFloat (fdiv x y))
      | _ \<Rightarrow> val_binop fdiv a b)"

text \<open>A Python \<^verbatim>\<open>int\<close> as an operand of float arithmetic.\<close>

definition py_int :: "int \<Rightarrow> val" where
  "py_int k = PyFloat (Fin (real_of_int k))"

definition np_abs :: "val \<Rightarrow> val" where
  "np_abs v =
     (case v of
        PyFloat a \<Rightarrow> NpFloat (fabs a)
      | NpFloat a \<Rightarrow> NpFloat (fabs a)
      | NdArray xs \<Rightarrow> NdArray (map fabs xs))"

text \<open>
  The routines of \<^verbatim>\<open>scipy.stats\<close> and \<^verbatim>\<open>statsmodels\<close> that the class calls are
  outside the module; the embedding takes them as parameters.
\<close>

record stats_lib =
  t_sf :: "val \<Rightarrow> int \<Rightarrow> val"
  t_ppf :: "npfloat \<Rightarrow> int \<Rightarrow> npfloat"
  ttest_ind :: "npfloat list \<Rightarrow> npfloat list \<Rightarrow> npfloat \<times> npfloat"
  multipletests :: "val \<Rightarrow> real \<Rightarrow> string \<Rightarrow> py_error + val"

record percentage_change =
  current :: interval
  previous :: interval
  pc_upper :: "val option"
  pc_lower :: "val option"
  t_score :: "val option"
  p_value :: "val option"
  alpha :: real
  correction_method :: string
  pc_num_series :: int
  skip_rescaling :: bool
  use_corrected_scores :: bool
  min_perc_change :: real

definition PercentageChange ::
  "interval \<Rightarrow> interval \<Rightarrow> string \<Rightarrow> bool \<Rightarrow> bool \<Rightarrow> real \<Rightarrow> percentage_change" where
  "PercentageChange cur prev meth skip corrected min_pc =
     \<lparr>current = cur, previous = prev, pc_upper = None, pc_lower = None,
      t_score = None, p_value = None, alpha = 5 / 100, correction_method = meth,
      pc_num_series = num_series cur, skip_rescaling = skip,
      use_corrected_scores = corrected, min_perc_change = min_pc\<rparr>"

definition get_df :: "percentage_change \<Rightarrow> int" where
  "get_df self =
     (let n_1 = int (len (previous self)); n_2 = int (len (current self))
      in n_1 + n_2 - 2)"

definition pooled_stddev :: "percentage_change \<Rightarrow> py_error + val" where
  "pooled_stddev self =
     and_then (variance_val (previous self)) (\<lambda>s_1_sq.
     and_then (variance_val (current self)) (\<lambda>s_2_sq.
       let n_1 = int (len (previous self)); n_2 = int (len (current self)) in
       if n_1 = 0 \<or> n_2 = 0 \<or> (n_1 = n_2 \<and> n_2 = 1) then Inr (PyFloat (Fin 0))
       else
         and_then (val_binop fmul (py_int (n_1 - 1)) s_1_sq) (\<lambda>a.
         and_then (val_binop fmul (py_int (n_2 - 1)) s_2_sq) (\<lambda>b.
         and_then (val_binop fadd a b) (\<lambda>c.
         and_then (val_div c (py_int (n_1 + n_2 - 2))) (\<lambda>q.
           let s_p = np_sqrt q in
           if \<not> use_corrected_scores self then Inr s_p
           else
             and_then (val_div (PyFloat (Fin 1)) (py_int n_1)) (\<lambda>r1.
             and_then (val_div (PyFloat (Fin 1)) (py_int n_2)) (\<lambda>r2.
             and_then (val_binop fadd r1 r2) (\<lambda>r.
               val_binop fmul s_p (np_sqrt r))))))))))"

definition ttest_manual :: "stats_lib \<Rightarrow> percentage_change \<Rightarrow> py_error + val \<times> val" where
  "ttest_manual lib self =
     and_then (pooled_stddev self) (\<lambda>sp_mean.
       let df = get_df self in
       and_then (mean_val (current self)) (\<lambda>cm.
       and_then (mean_val (previous self)) (\<lambda>pm.
       and_then (val_binop fsub cm pm) (\<lambda>diff.
       and_then (val_div diff sp_mean) (\<lambda>t.
       and_then (val_binop fmul (t_sf lib (np_abs t) df) (py_int 2)) (\<lambda>p.
         Inr (t, p)))))))"

text \<open>\<^verbatim>\<open>a[:, i]\<close>: a column of a two-dimensional array; a flat array has no second axis.\<close>

definition column_slice :: "ndarray \<Rightarrow> nat \<Rightarrow> py_error + npfloat list" where
  "column_slice a i =
     (case a of
        Arr1 _ \<Rightarrow> Inl IndexError
      | Arr2 n cs \<Rightarrow> if i < length cs then Inr (cs ! i) else Inl IndexError)"

text \<open>The loop that fills \<^verbatim>\<open>t_value_start\<close> and \<^verbatim>\<open>p_value_start\<close> column by column.\<close>

fun ttest_columns ::
  "stats_lib \<Rightarrow> ndarray \<Rightarrow> ndarray \<Rightarrow> nat list \<Rightarrow> py_error + (npfloat \<times> npfloat) list" where
  "ttest_columns lib cur prev [] = Inr []"
| "ttest_columns lib cur prev (i # rest) =
     and_then (column_slice cur i) (\<lambda>current_slice.
     and_then (column_slice prev i) (\<lambda>prev_slice.
     and_then (ttest_columns lib cur prev rest) (\<lambda>r.
       Inr (ttest_ind lib current_slice prev_slice # r))))"

text \<open>
  The loop that rebuilds the t-scores from the corrected p-values. It writes into the
  array already stored in \<^verbatim>\<open>_t_score\<close>, so what it wrote stays when it raises.
\<close>

fun rescale_loop ::
  "stats_lib \<Rightarrow> int \<Rightarrow> val \<Rightarrow> val \<Rightarrow> nat list \<Rightarrow> npfloat list
     \<Rightarrow> npfloat list \<times> py_error option" where
  "rescale_loop lib df tvs pvs [] acc = (acc, None)"
| "rescale_loop lib df tvs pvs (i # rest) acc =
     (case getitem tvs i of
        Inl e \<Rightarrow> (acc, Some e)
      | Inr tv \<Rightarrow>
          (case getitem pvs i of
             Inl e \<Rightarrow> (acc, Some e)
           | Inr pv \<Rightarrow>
               if i < length acc
               then rescale_loop lib df tvs pvs rest
                      (acc[i := (if flt tv (Fin 0)
                                 then t_ppf lib (fdiv pv (Fin 2)) df
                                 else t_ppf lib (fsub (Fin 1) (fdiv pv (Fin 2))) df)])
               else (acc, Some IndexError)))"

definition ttest_multivariate ::
  "stats_lib \<Rightarrow> percentage_change \<Rightarrow> percentage_change \<times> py_error option" where
  "ttest_multivariate lib self =
     (let k = pc_num_series self;
          n_1 = len (previous self);
          n_2 = len (current self)
      in if k < 0 then (self, Some (ValueError ''negative dimensions are not allowed''))
         else if n_1 = 1 \<and> n_2 = 1
         then (self\<lparr>t_score := Some (NdArray (replicate (nat k) PInf)),
                     p_value := Some (NdArray (replicate (nat k) (Fin 0)))\<rparr>, None)
         else
           (case (if n_1 = 1 \<or> n_2 = 1 then ttest_manual lib self
                  else
                    and_then (data (current self)) (\<lambda>current_data.
                    and_then (data (previous self)) (\<lambda>prev_data.
                      case (current_data, prev_data) of
                        (Some cur, Some prev) \<Rightarrow>
                          and_then (ttest_columns lib cur prev [0..<nat k]) (\<lambda>r.
                            Inr (NdArray (map fst r), NdArray (map snd r)))
                      | _ \<Rightarrow> Inl (ValueError ''Interval data not set'')))) of
              Inl e \<Rightarrow> (self, Some e)
            | Inr (t_value_start, p_value_start) \<Rightarrow>
                if skip_rescaling self
                then (self\<lparr>p_value := Some p_value_start, t_score := Some t_value_start\<rparr>, None)
                else
                  (case multipletests lib p_value_start (alpha self) (correction_method self) of
                     Inl e \<Rightarrow> (self, Some e)
                   | Inr pv \<Rightarrow>
                       (case rescale_loop lib (get_df self) t_value_start pv
                               [0..<nat (num_series (current self))]
                               (replicate (nat k) (Fin 0)) of
                          (ts, err) \<Rightarrow>
                            (self\<lparr>p_value := Some pv, t_score := Some (NdArray ts)\<rparr>, err)))))"

definition ttest :: "stats_lib \<Rightarrow> percentage_change \<Rightarrow> percentage_change \<times> py_error option" where
  "ttest lib self =
     (if pc_num_series self > 1 then ttest_multivariate lib self
      else
        (let n_1 = len (previous self); n_2 = len (current self)
         in if n_1 = n_2 \<and> n_2 = 1
            then (self\<lparr>t_score := Some (PyFloat NaN), p_value := Some (PyFloat (Fin 0))\<rparr>, None)
            else (case ttest_manual lib self of
                    Inl e \<Rightarrow> (self, Some e)
                  | Inr (t, p) \<Rightarrow> (self\<lparr>t_score := Some t, p_value := Some p\<rparr>, None))))"

section \<open>AnomalyResponse\<close>

text \<open>
  The bundle holds references to \<^verbatim>\<open>TimeSeriesData\<close> objects. \<^verbatim>\<open>update\<close> builds new
  objects and rebinds the attributes of the bundle, \<^verbatim>\<open>inplace_update\<close> and \<^verbatim>\<open>extend\<close>
  write into the objects the attributes point to. The store keeps the two apart: it
  maps references to objects, and a fresh reference is the next unused number.
\<close>

type_synonym ref = nat

record heap =
  objs :: "ref \<Rightarrow> tsd"
  next_ref :: ref


definition store :: "ref \<Rightarrow> tsd \<Rightarrow> heap \<Rightarrow> heap" where
  "store r d h = h\<lparr>objs := (objs h)(r := d)\<rparr>"

record conf_band =
  cb_lower :: ref
  cb_upper :: ref

record anomaly_response =
  scores :: ref
  confidence_band :: "conf_band option"
  predicted_ts :: "ref option"
  anomaly_magnitude_ts :: ref
  stat_sig_ts :: "ref option"
  key_mapping :: "string list"
  ar_num_series :: int

definition AnomalyResponse ::
  "heap \<Rightarrow> ref \<Rightarrow> conf_band option \<Rightarrow> ref option \<Rightarrow> ref \<Rightarrow> ref option \<Rightarrow> anomaly_response" where
  "AnomalyResponse h sc cb pts am ss =
     \<lparr>scores = sc, confidence_band = cb, predicted_ts = pts, anomaly_magnitude_ts = am,
      stat_sig_ts = ss,
      key_mapping = (if is_univariate (objs h sc) then [] else value_columns (objs h sc)),
      ar_num_series = (if is_univariate (objs h sc) then 1
                       else int (length (value_columns (objs h sc))))\<rparr>"

text \<open>
  Modelled from the spec: the constructor of \<^verbatim>\<open>TimeSeriesData\<close>, which is not part of
  the sources at hand. The spec calls the container time-aligned: every value column
  has one entry per timestamp, and a misaligned pair is refused.
\<close>

definition TimeSeriesData :: "time list \<Rightarrow> tsvalue \<Rightarrow> py_error + tsd" where
  "TimeSeriesData t v =
     (if (case v of
            Series xs \<Rightarrow> length xs = length t
          | Frame cs \<Rightarrow> list_all (\<lambda>c. length (snd c) = length t) cs)
      then Inr \<lparr>ts_time = t, ts_value = v\<rparr>
      else Inl (ValueError ''time and value have different lengths''))"

text \<open>\<^verbatim>\<open>pd.Series(value)\<close>: one row for a scalar, one row per entry for an array.\<close>

definition as_rows :: "val \<Rightarrow> npfloat list" where
  "as_rows v = (case v of PyFloat a \<Rightarrow> [a] | NpFloat a \<Rightarrow> [a] | NdArray xs \<Rightarrow> xs)"

text \<open>\<^verbatim>\<open>ts.value[value_col]\<close>: a column of a frame; a flat series has no such label.\<close>

definition value_col :: "tsd \<Rightarrow> string \<Rightarrow> py_error + npfloat list" where
  "value_col ts c =
     (case ts_value ts of
        Series _ \<Rightarrow> Inl (KeyError c)
      | Frame cs \<Rightarrow> (case map_of cs c of None \<Rightarrow> Inl (KeyError c) | Some xs \<Rightarrow> Inr xs))"

fun shifted_columns ::
  "tsd \<Rightarrow> val \<Rightarrow> (nat \<times> string) list \<Rightarrow> py_error + (string \<times> npfloat list) list" where
  "shifted_columns ts v [] = Inr []"
| "shifted_columns ts v ((i, c) # rest) =
     and_then (value_col ts c) (\<lambda>xs.
     and_then (getitem v i) (\<lambda>x.
     and_then (shifted_columns ts v rest) (\<lambda>r.
       Inr ((c, tl xs @ [x]) # r))))"

text \<open>
  \<^verbatim>\<open>_update_ts_slice\<close>: everything but the first row, then the new row. In the
  univariate branch a frame met instead of a flat series is concatenated the way
  pandas does it: the new rows go to a column of their own, named \<^verbatim>\<open>0\<close>, and the gaps
  are \<open>nan\<close>.
\<close>

definition update_ts_slice :: "anomaly_response \<Rightarrow> tsd \<Rightarrow> time \<Rightarrow> val \<Rightarrow> py_error + tsd" where
  "update_ts_slice self ts t v =
     (let time_df = tl (ts_time ts) @ [t] in
      if ar_num_series self = 1
      then (case ts_value ts of
              Series xs \<Rightarrow> TimeSeriesData time_df (Series (tl xs @ as_rows v))
            | Frame cs \<Rightarrow>
                TimeSeriesData time_df
                  (Frame (map (\<lambda>(n, xs). (n, tl xs @ replicate (length (as_rows v)) NaN)) cs
                          @ [(''0'', replicate (length (ts_time ts) - 1) NaN @ as_rows v)])))
      else if is_float v then Inl (ValueError ''value should have type ArrayLike'')
      else and_then (shifted_columns ts v (enumerate 0 (key_mapping self))) (\<lambda>cols.
             TimeSeriesData time_df (Frame cols)))"

text \<open>Running the statements of a method in order; an exception keeps the state reached.\<close>

fun run_steps :: "('s \<Rightarrow> 's \<times> py_error option) list \<Rightarrow> 's \<Rightarrow> 's \<times> py_error option" where
  "run_steps [] s = (s, None)"
| "run_steps (f # fs) s =
     (case f s of
        (s', Some e) \<Rightarrow> (s', Some e)
      | (s', None) \<Rightarrow> run_steps fs s')"








text \<open>
  Assignment through a boolean row selection, \<^verbatim>\<open>x.loc[rows] = value\<close>. A scalar goes
  to every selected row. A list of values is written to the selected rows in order.
\<close>

fun fill_where :: "bool list \<Rightarrow> 'a \<Rightarrow> 'a list \<Rightarrow> 'a list" where
  "fill_where (m # ms) v (x # xs) = (if m then v else x) # fill_where ms v xs"
| "fill_where _ v xs = xs"

fun put_where :: "bool list \<Rightarrow> 'a list \<Rightarrow> 'a list \<Rightarrow> 'a list" where
  "put_where (m # ms) vs (x # xs) =
     (if m then (case vs of [] \<Rightarrow> x # put_where ms vs xs | v # vs' \<Rightarrow> v # put_where ms vs' xs)
      else x # put_where ms vs xs)"
| "put_where _ vs xs = xs"

definition count_true :: "bool list \<Rightarrow> nat" where
  "count_true ms = length (filter (\<lambda>m. m) ms)"

text \<open>
  On a flat series pandas accepts a list-like value whose length is the number of rows
  or the number of selected rows, and numpy then needs as many values as selected rows,
  or a single value; anything else raises. On a frame a list-like value is spread over
  the columns and has to have one entry per column, or a single entry. The form with a
  column selector, \<^verbatim>\<open>x.loc[rows, :]\<close>, is refused by a flat series.
\<close>

definition loc_set :: "bool \<Rightarrow> bool list \<Rightarrow> val \<Rightarrow> tsvalue \<Rightarrow> py_error + tsvalue" where
  "loc_set with_columns rows v x =
     (case x of
        Series xs \<Rightarrow>
          if with_columns then Inl (IndexingError ''Too many indexers'')
          else (case v of
                  PyFloat a \<Rightarrow> Inr (Series (fill_where rows a xs))
                | NpFloat a \<Rightarrow> Inr (Series (fill_where rows a xs))
                | NdArray vs \<Rightarrow>
                    if (length vs = length rows \<or> length vs = count_true rows)
                       \<and> (length vs = count_true rows \<or> length vs = 1)
                    then (if length vs = count_true rows
                          then Inr (Series (put_where rows vs xs))
                          else Inr (Series (fill_where rows (hd vs) xs)))
                    else Inl (ValueError
                      ''cannot set using a list-like indexer with a different length than the value''))
      | Frame cs \<Rightarrow>
          (case v of
             PyFloat a \<Rightarrow> Inr (Frame (map (\<lambda>(n, xs). (n, fill_where rows a xs)) cs))
           | NpFloat a \<Rightarrow> Inr (Frame (map (\<lambda>(n, xs). (n, fill_where rows a xs)) cs))
           | NdArray vs \<Rightarrow>
               if length vs = length cs
               then Inr (Frame (map2 (\<lambda>(n, xs) a. (n, fill_where rows a xs)) cs vs))
               else if length vs = 1
               then Inr (Frame (map (\<lambda>(n, xs). (n, fill_where rows (hd vs) xs)) cs))
               else Inl (ValueError
                 ''Must have equal len keys and value when setting with an iterable'')))"

definition inplace_update_ts ::
  "anomaly_response \<Rightarrow> ref option \<Rightarrow> time \<Rightarrow> val \<Rightarrow> heap \<Rightarrow> heap \<times> py_error option" where
  "inplace_update_ts self ts t v h =
     (case ts of
        None \<Rightarrow> (h, None)
      | Some r \<Rightarrow>
          (let d = objs h r;
               rows = map (\<lambda>x. x = t) (ts_time d)
           in case loc_set (ar_num_series self \<noteq> 1) rows v (ts_value d) of
                Inl e \<Rightarrow> (h, Some e)
              | Inr x \<Rightarrow> (store r (d\<lparr>ts_value := x\<rparr>) h, None)))"

definition inplace_update ::
  "anomaly_response \<Rightarrow> time \<Rightarrow> val \<Rightarrow> val \<Rightarrow> val \<Rightarrow> val \<Rightarrow> val \<Rightarrow> val \<Rightarrow> heap
     \<Rightarrow> heap \<times> py_error option" where
  "inplace_update self t score ci_upper ci_lower pred anom_mag stat_sig =
     run_steps
       [inplace_update_ts self (Some (scores self)) t score,
        inplace_update_ts self (map_option cb_lower (confidence_band self)) t ci_lower,
        inplace_update_ts self (map_option cb_upper (confidence_band self)) t ci_upper,
        inplace_update_ts self (predicted_ts self) t pred,
        inplace_update_ts self (Some (anomaly_magnitude_ts self)) t anom_mag,
        inplace_update_ts self (stat_sig_ts self) t stat_sig]"

text \<open>
  \<^verbatim>\<open>extend\<close> takes any Python object as \<^verbatim>\<open>other\<close> and checks its class first. The
  routine \<^verbatim>\<open>TimeSeriesData.extend\<close>, which concatenates in place and validates on
  request, is outside the module and is a parameter here.
\<close>

datatype py_object = AnomalyResponseObject anomaly_response | OtherObject

definition component_mismatch_error_msg :: "string \<Rightarrow> string" where
  "component_mismatch_error_msg c =
     ''The '' @ c @ '' in one of the AnomalyResponse objects is None while the ''
       @ ''other is not. Either both should be None or neither.''"

definition extend_ts ::
  "(tsd \<Rightarrow> tsd \<Rightarrow> bool \<Rightarrow> py_error + tsd) \<Rightarrow> bool \<Rightarrow> ref \<Rightarrow> ref \<Rightarrow> heap
     \<Rightarrow> heap \<times> py_error option" where
  "extend_ts ts_extend validate r r_other h =
     (case ts_extend (objs h r) (objs h r_other) validate of
        Inl e \<Rightarrow> (h, Some e)
      | Inr d \<Rightarrow> (store r d h, None))"

definition extend_opt ::
  "(tsd \<Rightarrow> tsd \<Rightarrow> bool \<Rightarrow> py_error + tsd) \<Rightarrow> bool \<Rightarrow> ref option \<Rightarrow> ref option \<Rightarrow> heap
     \<Rightarrow> heap \<times> py_error option" where
  "extend_opt ts_extend validate r r_other h =
     (case (r, r_other) of
        (Some a, Some b) \<Rightarrow> extend_ts ts_extend validate a b h
      | _ \<Rightarrow> (h, None))"

definition extend ::
  "(tsd \<Rightarrow> tsd \<Rightarrow> bool \<Rightarrow> py_error + tsd) \<Rightarrow> anomaly_response \<Rightarrow> py_object \<Rightarrow> bool \<Rightarrow> heap
     \<Rightarrow> heap \<times> py_error option" where
  "extend ts_extend self other_obj validate h =
     (case other_obj of
        OtherObject \<Rightarrow> (h, Some (TypeError ''extend must take another AnomalyResponse object''))
      | AnomalyResponseObject other \<Rightarrow>
          if (confidence_band self = None) \<noteq> (confidence_band other = None)
          then (h, Some (ValueError (component_mismatch_error_msg ''confidence_band'')))
          else if (predicted_ts self = None) \<noteq> (predicted_ts other = None)
          then (h, Some (ValueError (component_mismatch_error_msg ''predicted_ts'')))
          else if (stat_sig_ts self = None) \<noteq> (stat_sig_ts other = None)
          then (h, Some (ValueError (component_mismatch_error_msg ''stat_sig_ts'')))
          else
            run_steps
              [extend_ts ts_extend validate (scores self) (scores other),
               extend_opt ts_extend validate
                 (map_option cb_upper (confidence_band self))
                 (map_option cb_upper (confidence_band other)),
               extend_opt ts_extend validate
                 (map_option cb_lower (confidence_band self))
                 (map_option cb_lower (confidence_band other)),
               extend_opt ts_extend validate (predicted_ts self) (predicted_ts other),
               extend_ts ts_extend validate
                 (anomaly_magnitude_ts self) (anomaly_magnitude_ts other),
               extend_opt ts_extend validate (stat_sig_ts self) (stat_sig_ts other)]
              h)"

section \<open>Concrete inputs\<close>

text \<open>
  An interval over \<open>[0, 10)\<close> bound to a series whose only timestamp, 20, lies outside:
  the table is there and has no rows.
\<close>

definition bound_empty :: interval where
  "bound_empty =
     \<lparr>start_time = 0, end_time = 10, all_spikes = None, spike_std_threshold = 2,
      data_df = Some \<lparr>df_time = [], df_cols = [(''value'', [])]\<rparr>,
      ts_cols = [''value''], num_series = 1\<rparr>"

text \<open>Intervals holding one row: a univariate one and one with the two columns a and b.\<close>

definition one_point :: "real \<Rightarrow> interval" where
  "one_point x =
     \<lparr>start_time = 0, end_time = 10, all_spikes = None, spike_std_threshold = 2,
      data_df = Some \<lparr>df_time = [3], df_cols = [(''value'', [Fin x])]\<rparr>,
      ts_cols = [''value''], num_series = 1\<rparr>"

definition one_row :: "real \<Rightarrow> real \<Rightarrow> interval" where
  "one_row x y =
     \<lparr>start_time = 0, end_time = 10, all_spikes = None, spike_std_threshold = 2,
      data_df = Some \<lparr>df_time = [3], df_cols = [(''a'', [Fin x]), (''b'', [Fin y])]\<rparr>,
      ts_cols = [''a'', ''b''], num_series = 2\<rparr>"

text \<open>Stand-ins for the statistics routines, to run the class on concrete inputs.\<close>

definition null_lib :: stats_lib where
  "null_lib = \<lparr>t_sf = (\<lambda>v d. v), t_ppf = (\<lambda>p d. p),
               ttest_ind = (\<lambda>a b. (NaN, NaN)), multipletests = (\<lambda>v a m. Inr v)\<rparr>"

text \<open>
  A store whose object number \<open>r\<close> is the three-point series with the values
  \<open>r, r + 1, r + 2\<close> at the times 1, 2, 3, and a univariate bundle over the objects 0 to
  4 that has a confidence band and a predicted series and no significance series.
\<close>

definition heap0 :: heap where
  "heap0 =
     \<lparr>objs = (\<lambda>r. \<lparr>ts_time = [1, 2, 3],
                     ts_value = Series [Fin (real r), Fin (real r + 1), Fin (real r + 2)]\<rparr>),
      next_ref = 5\<rparr>"

definition resp0 :: anomaly_response where
  "resp0 =
     \<lparr>scores = 0, confidence_band = Some \<lparr>cb_lower = 1, cb_upper = 2\<rparr>,
      predicted_ts = Some 3, anomaly_magnitude_ts = 4, stat_sig_ts = None,
      key_mapping = [], ar_num_series = 1\<rparr>"

section \<open>The pooled standard deviation as the spec words it\<close>






text \<open>
  The scenario of the spec: the five values 1, 1, 1, 1, 100 at the times 0 to 4, bound to
  the interval \<open>[0, 5)\<close> with the default threshold, and the interval after its first
  spike detection.
\<close>

definition five_values :: tsd where
  "five_values = \<lparr>ts_time = [0, 1, 2, 3, 4],
                   ts_value = Series [Fin 1, Fin 1, Fin 1, Fin 1, Fin 100]\<rparr>"

definition bound_five :: interval where
  "bound_five =
     \<lparr>start_time = 0, end_time = 5, all_spikes = None, spike_std_threshold = 2,
      data_df = Some \<lparr>df_time = [0, 1, 2, 3, 4],
                      df_cols = [(''value'', [Fin 1, Fin 1, Fin 1, Fin 1, Fin 100])]\<rparr>,
      ts_cols = [''value''], num_series = 1\<rparr>"

definition scored_five :: interval where
  "scored_five =
     bound_five\<lparr>data_df := Some
       \<lparr>df_time = [0, 1, 2, 3, 4],
        df_cols = [(''value'', [Fin 1, Fin 1, Fin 1, Fin 1, Fin 100]),
                   (''z_score'', [Fin (- (sqrt 5 / 5)), Fin (- (sqrt 5 / 5)),
                                  Fin (- (sqrt 5 / 5)), Fin (- (sqrt 5 / 5)),
                                  Fin (4 * sqrt 5 / 5)])]\<rparr>\<rparr>"

text \<open>
  A series with a spike: eight zeros and a 3 at the times 0 to 8, bound to the interval
  \<open>[0, 9)\<close>. Its mean is 1/3 and its unbiased variance 1, so the last point has the
  z-score 8/3. Then the table after the first access to \<^verbatim>\<open>spikes\<close>, and the interval
  with its memo filled.
\<close>

definition nine_values :: tsd where
  "nine_values =
     \<lparr>ts_time = [0, 1, 2, 3, 4, 5, 6, 7, 8],
      ts_value = Series [Fin 0, Fin 0, Fin 0, Fin 0, Fin 0, Fin 0, Fin 0, Fin 0, Fin 3]\<rparr>"

definition nine_table :: dataframe where
  "nine_table =
     \<lparr>df_time = [0, 1, 2, 3, 4, 5, 6, 7, 8],
      df_cols = [(''value'',
                  [Fin 0, Fin 0, Fin 0, Fin 0, Fin 0, Fin 0, Fin 0, Fin 0, Fin 3])]\<rparr>"

definition bound_nine :: interval where
  "bound_nine =
     \<lparr>start_time = 0, end_time = 9, all_spikes = None, spike_std_threshold = 2,
      data_df = Some nine_table, ts_cols = [''value''], num_series = 1\<rparr>"

definition spike_nine :: single_spike where
  "spike_nine = \<lparr>spike_time = 8, spike_value = Fin 3, n_sigma = Fin (8 / 3)\<rparr>"

definition nine_scored_table :: dataframe where
  "nine_scored_table =
     \<lparr>df_time = [0, 1, 2, 3, 4, 5, 6, 7, 8],
      df_cols = [(''value'',
                  [Fin 0, Fin 0, Fin 0, Fin 0, Fin 0, Fin 0, Fin 0, Fin 0, Fin 3]),
                 (''z_score'',
                  [Fin (- (1 / 3)), Fin (- (1 / 3)), Fin (- (1 / 3)), Fin (- (1 / 3)),
                   Fin (- (1 / 3)), Fin (- (1 / 3)), Fin (- (1 / 3)), Fin (- (1 / 3)),
                   Fin (8 / 3)])]\<rparr>"

definition memo_nine :: interval where
  "memo_nine =
     \<lparr>start_time = 0, end_time = 9, all_spikes = Some (Spikes [spike_nine]),
      spike_std_threshold = 2, data_df = Some nine_scored_table,
      ts_cols = [''value''], num_series = 1\<rparr>"

text \<open>
  A second series, two equal values at the times 0 and 1, and what binding it or
  appending it to the interval above leaves behind.
\<close>

definition two_flat :: tsd where
  "two_flat = \<lparr>ts_time = [0, 1], ts_value = Series [Fin 5, Fin 5]\<rparr>"

definition flat_table :: dataframe where
  "flat_table = \<lparr>df_time = [0, 1], df_cols = [(''value'', [Fin 5, Fin 5])]\<rparr>"

definition rebound :: interval where
  "rebound = memo_nine\<lparr>data_df := Some flat_table\<rparr>"

definition nine_extended_table :: dataframe where
  "nine_extended_table =
     \<lparr>df_time = [0, 1, 2, 3, 4, 5, 6, 7, 8, 0, 1],
      df_cols = [(''value'',
                  [Fin 0, Fin 0, Fin 0, Fin 0, Fin 0, Fin 0, Fin 0, Fin 0, Fin 3,
                   Fin 5, Fin 5]),
                 (''z_score'',
                  [Fin (- (1 / 3)), Fin (- (1 / 3)), Fin (- (1 / 3)), Fin (- (1 / 3)),
                   Fin (- (1 / 3)), Fin (- (1 / 3)), Fin (- (1 / 3)), Fin (- (1 / 3)),
                   Fin (8 / 3), NaN, NaN])]\<rparr>"

definition extended_nine :: interval where
  "extended_nine = memo_nine\<lparr>data_df := Some nine_extended_table\<rparr>"






section \<open>Notions for the frame of update\<close>

text \<open>
  The series a bundle has, in the order in which \<^verbatim>\<open>update\<close> goes through them, and the
  values \<^verbatim>\<open>update\<close> appends to them.
\<close>

definition component_refs :: "anomaly_response \<Rightarrow> ref list" where
  "component_refs self =
     [scores self]
     @ (case confidence_band self of None \<Rightarrow> [] | Some cb \<Rightarrow> [cb_lower cb, cb_upper cb])
     @ (case predicted_ts self of None \<Rightarrow> [] | Some r \<Rightarrow> [r])
     @ [anomaly_magnitude_ts self]
     @ (case stat_sig_ts self of None \<Rightarrow> [] | Some r \<Rightarrow> [r])"

definition component_values ::
  "anomaly_response \<Rightarrow> val \<Rightarrow> val \<Rightarrow> val \<Rightarrow> val \<Rightarrow> val \<Rightarrow> val \<Rightarrow> val list" where
  "component_values self score ci_upper ci_lower pred anom_mag stat_sig =
     [score]
     @ (case confidence_band self of None \<Rightarrow> [] | Some cb \<Rightarrow> [ci_lower, ci_upper])
     @ (case predicted_ts self of None \<Rightarrow> [] | Some r \<Rightarrow> [pred])
     @ [anom_mag]
     @ (case stat_sig_ts self of None \<Rightarrow> [] | Some r \<Rightarrow> [stat_sig])"




section \<open>Notions for inplace_update\<close>

text \<open>The time occurs in none of the series the bundle has.\<close>

definition time_absent :: "time \<Rightarrow> heap \<Rightarrow> anomaly_response \<Rightarrow> bool" where
  "time_absent t h self =
     list_all (\<lambda>r. t \<notin> set (ts_time (objs h r))) (component_refs self)"

text \<open>
  A value has the shape its series takes: a scalar in the univariate branch; in the
  multivariate branch the series is a frame and the value a scalar or an array with
  one entry per column.
\<close>

definition fits :: "anomaly_response \<Rightarrow> tsd \<Rightarrow> val \<Rightarrow> bool" where
  "fits self d v =
     (if ar_num_series self = 1 then is_float v
      else (case ts_value d of
              Series _ \<Rightarrow> False
            | Frame cs \<Rightarrow> (case v of NdArray vs \<Rightarrow> length vs = length cs | _ \<Rightarrow> True)))"

definition values_fit ::
  "heap \<Rightarrow> anomaly_response \<Rightarrow> val \<Rightarrow> val \<Rightarrow> val \<Rightarrow> val \<Rightarrow> val \<Rightarrow> val \<Rightarrow> bool" where
  "values_fit h self score ci_upper ci_lower pred anom_mag stat_sig =
     list_all (\<lambda>(r, v). fits self (objs h r) v)
       (zip (component_refs self)
            (component_values self score ci_upper ci_lower pred anom_mag stat_sig))"

text \<open>A store of frames with the columns a and b and a bundle of two of them.\<close>

definition heap_ab :: heap where
  "heap_ab =
     \<lparr>objs = (\<lambda>r. \<lparr>ts_time = [1, 2],
                     ts_value = Frame [(''a'', [Fin (real r), Fin 0]),
                                       (''b'', [Fin 1, Fin (real r)])]\<rparr>),
      next_ref = 2\<rparr>"

definition resp_ab :: anomaly_response where
  "resp_ab =
     \<lparr>scores = 0, confidence_band = None, predicted_ts = None, anomaly_magnitude_ts = 1,
      stat_sig_ts = None, key_mapping = [''a'', ''b''], ar_num_series = 2\<rparr>"

section \<open>Statistics of an interval without data\<close>

lemma np_zeros_nonneg: "0 \<le> k \<Longrightarrow> np_zeros k = Inr (NdArray (replicate (nat k) (Fin 0)))"
  by (simp add: np_zeros_def)

lemma unbound_mean_val:
  "data_df self = None \<Longrightarrow> 0 \<le> num_series self \<Longrightarrow>
   mean_val self = (if num_series self = 1 then Inr (PyFloat (Fin 0))
                    else Inr (NdArray (replicate (nat (num_series self)) (Fin 0))))"
  by (simp add: mean_val_def data_def np_zeros_nonneg)

lemma unbound_variance_val:
  "data_df self = None \<Longrightarrow> 0 \<le> num_series self \<Longrightarrow>
   variance_val self = (if num_series self = 1 then Inr (PyFloat (Fin 0))
                        else Inr (NdArray (replicate (nat (num_series self)) (Fin 0))))"
  by (simp add: variance_val_def data_def np_zeros_nonneg)

text \<open>
  Claim C3, as amended. An interval to which no data has been bound has length 0, and
  its mean and its variance are 0: the Python float \<open>0.0\<close> when \<open>num_series\<close> is 1, the
  zero vector of length \<open>num_series\<close> otherwise.
\<close>

theorem unbound_mean_variance_zero:
  "data_df self = None \<Longrightarrow> 0 \<le> num_series self \<Longrightarrow>
   len self = 0
   \<and> mean_val self = (if num_series self = 1 then Inr (PyFloat (Fin 0))
                      else Inr (NdArray (replicate (nat (num_series self)) (Fin 0))))
   \<and> variance_val self = (if num_series self = 1 then Inr (PyFloat (Fin 0))
                          else Inr (NdArray (replicate (nat (num_series self)) (Fin 0))))"
  by (simp add: unbound_mean_val unbound_variance_val len_def)

theorem unbound_mean_variance_zero_witness:
  "data_df (ChangePointInterval 0 10 1) = None
   \<and> len (ChangePointInterval 0 10 1) = 0
   \<and> mean_val (ChangePointInterval 0 10 1) = Inr (PyFloat (Fin 0))
   \<and> variance_val (ChangePointInterval 0 10 1) = Inr (PyFloat (Fin 0))
   \<and> data_df (ChangePointInterval 0 10 3) = None
   \<and> len (ChangePointInterval 0 10 3) = 0
   \<and> mean_val (ChangePointInterval 0 10 3) = Inr (NdArray [Fin 0, Fin 0, Fin 0])
   \<and> variance_val (ChangePointInterval 0 10 3) = Inr (NdArray [Fin 0, Fin 0, Fin 0])"
  using unbound_mean_variance_zero [of "ChangePointInterval 0 10 1"]
        unbound_mean_variance_zero [of "ChangePointInterval 0 10 3"]
  by (simp add: ChangePointInterval_def numeral_3_eq_3)

text \<open>
  Claim C3 as stated fails for an interval of length 0 that has a table: bound to a
  series with no timestamp inside the bound, the interval has length 0 and both its
  mean and its variance are \<open>nan\<close>.
\<close>

theorem empty_restriction_gives_nan:
  "set_data \<lparr>ts_time = [20], ts_value = Series [Fin 5]\<rparr> (ChangePointInterval 0 10 1)
     = Inr bound_empty
   \<and> len bound_empty = 0
   \<and> mean_val bound_empty = Inr (NpFloat NaN)
   \<and> variance_val bound_empty = Inr (NpFloat NaN)"
  by (simp add: bound_empty_def set_data_def ChangePointInterval_def is_univariate_def
      to_dataframe_def set_columns_def loc_between_def select_rows_def keep_rows_def len_def
      mean_val_def variance_val_def data_def get_col_def np_mean_def np_var_ddof1_def fsum_def)

section \<open>Statistics and spike detection before any data is bound\<close>

text \<open>
  Claim C5, as amended. On an interval to which no data has been bound, spike detection
  raises the error that names the missing data, through \<^verbatim>\<open>_detect_spikes\<close> and
  through the property \<^verbatim>\<open>spikes\<close>, and leaves the interval as it was; the
  statistics raise nothing: \<open>mean_val\<close> and \<open>variance_val\<close> return 0 (the zero vector of
  length \<open>num_series\<close> when \<open>num_series\<close> is not 1).
\<close>

theorem unbound_spikes_raise_statistics_return:
  "data_df self = None \<Longrightarrow> all_spikes self = None \<Longrightarrow> 0 \<le> num_series self \<Longrightarrow>
   detect_spikes self = (self, Inl (ValueError ''data must be set before spike detection''))
   \<and> spikes self = (self, Inl (ValueError ''data must be set before spike detection''))
   \<and> mean_val self = (if num_series self = 1 then Inr (PyFloat (Fin 0))
                      else Inr (NdArray (replicate (nat (num_series self)) (Fin 0))))
   \<and> variance_val self = (if num_series self = 1 then Inr (PyFloat (Fin 0))
                          else Inr (NdArray (replicate (nat (num_series self)) (Fin 0))))"
  by (simp add: detect_spikes_def spikes_def unbound_mean_val unbound_variance_val)

theorem unbound_spikes_raise_statistics_return_witness:
  "detect_spikes (ChangePointInterval 0 10 1)
     = (ChangePointInterval 0 10 1, Inl (ValueError ''data must be set before spike detection''))
   \<and> spikes (ChangePointInterval 0 10 1)
     = (ChangePointInterval 0 10 1, Inl (ValueError ''data must be set before spike detection''))
   \<and> mean_val (ChangePointInterval 0 10 1) = Inr (PyFloat (Fin 0))
   \<and> variance_val (ChangePointInterval 0 10 1) = Inr (PyFloat (Fin 0))"
  using unbound_spikes_raise_statistics_return [of "ChangePointInterval 0 10 1"]
  by (simp add: ChangePointInterval_def)

text \<open>
  Claim C5 as stated fails for the statistics: on a freshly constructed interval
  \<open>mean_val\<close> and \<open>variance_val\<close> return a value, univariate or not.
\<close>

theorem unbound_statistics_do_not_raise:
  "data_df (ChangePointInterval 0 10 1) = None
   \<and> mean_val (ChangePointInterval 0 10 1) = Inr (PyFloat (Fin 0))
   \<and> variance_val (ChangePointInterval 0 10 1) = Inr (PyFloat (Fin 0))
   \<and> mean_val (ChangePointInterval 0 10 2) = Inr (NdArray [Fin 0, Fin 0])
   \<and> variance_val (ChangePointInterval 0 10 2) = Inr (NdArray [Fin 0, Fin 0])"
  by (simp add: ChangePointInterval_def mean_val_def variance_val_def data_def np_zeros_def
      numeral_2_eq_2)

section \<open>The t-test on two single points\<close>

text \<open>
  Claim C7. When the previous and the current interval hold one point each, the t-test
  stores the not-a-number sentinel as t-score and 0 as p-value in the univariate case,
  and in the multivariate case (\<open>num_series > 1\<close>) a vector of \<open>+inf\<close> as t-scores and a
  vector of 0 as p-values, both of length \<open>num_series\<close>; it raises nothing and calls no
  statistics routine.
\<close>

theorem single_point_ttest:
  "len (previous self) = 1 \<Longrightarrow> len (current self) = 1 \<Longrightarrow>
   ttest lib self =
     (if pc_num_series self > 1
      then (self\<lparr>t_score := Some (NdArray (replicate (nat (pc_num_series self)) PInf)),
                 p_value := Some (NdArray (replicate (nat (pc_num_series self)) (Fin 0)))\<rparr>,
            None)
      else (self\<lparr>t_score := Some (PyFloat NaN), p_value := Some (PyFloat (Fin 0))\<rparr>, None))"
  by (simp add: ttest_def ttest_multivariate_def Let_def)

theorem single_point_ttest_witness:
  "len (one_point 5) = 1 \<and> len (one_point 7) = 1
   \<and> ttest null_lib (PercentageChange (one_point 7) (one_point 5) ''fdr_bh'' False False 0)
     = ((PercentageChange (one_point 7) (one_point 5) ''fdr_bh'' False False 0)
          \<lparr>t_score := Some (PyFloat NaN), p_value := Some (PyFloat (Fin 0))\<rparr>, None)
   \<and> len (one_row 1 2) = 1 \<and> len (one_row 3 4) = 1
   \<and> ttest null_lib (PercentageChange (one_row 3 4) (one_row 1 2) ''fdr_bh'' False False 0)
     = ((PercentageChange (one_row 3 4) (one_row 1 2) ''fdr_bh'' False False 0)
          \<lparr>t_score := Some (NdArray [PInf, PInf]),
            p_value := Some (NdArray [Fin 0, Fin 0])\<rparr>, None)"
  using single_point_ttest
          [of "PercentageChange (one_point 7) (one_point 5) ''fdr_bh'' False False 0" null_lib]
        single_point_ttest
          [of "PercentageChange (one_row 3 4) (one_row 1 2) ''fdr_bh'' False False 0" null_lib]
  by (simp add: PercentageChange_def one_point_def one_row_def len_def numeral_2_eq_2)

section \<open>Structural checks of extend\<close>

text \<open>
  Claim C8. \<^verbatim>\<open>extend\<close> raises a \<^verbatim>\<open>TypeError\<close> for an object that is not an
  \<^verbatim>\<open>AnomalyResponse\<close>. For another bundle it raises the structural \<^verbatim>\<open>ValueError\<close>
  whenever the two differ in the presence of the confidence band, of the predicted
  series or of the significance series, each compared on its own, and names the first
  component that differs; nothing is written to the store. In particular a bundle with
  a confidence band cannot be extended with the same bundle without it.
\<close>

theorem extend_structural_errors:
  "extend ts_extend self OtherObject validate h
     = (h, Some (TypeError ''extend must take another AnomalyResponse object''))
   \<and> ((confidence_band self = None) \<noteq> (confidence_band other = None)
        \<or> (predicted_ts self = None) \<noteq> (predicted_ts other = None)
        \<or> (stat_sig_ts self = None) \<noteq> (stat_sig_ts other = None)
      \<longrightarrow> extend ts_extend self (AnomalyResponseObject other) validate h
            = (h, Some (ValueError (component_mismatch_error_msg
                 (if (confidence_band self = None) \<noteq> (confidence_band other = None)
                  then ''confidence_band''
                  else if (predicted_ts self = None) \<noteq> (predicted_ts other = None)
                  then ''predicted_ts'' else ''stat_sig_ts'')))))
   \<and> (confidence_band self \<noteq> None
      \<longrightarrow> extend ts_extend self (AnomalyResponseObject (self\<lparr>confidence_band := None\<rparr>))
              validate h
            = (h, Some (ValueError (component_mismatch_error_msg ''confidence_band''))))"
  by (auto simp add: extend_def)

theorem extend_structural_errors_witness:
  "confidence_band resp0 \<noteq> None
   \<and> extend (\<lambda>d e v. Inr d) resp0 OtherObject True heap0
     = (heap0, Some (TypeError ''extend must take another AnomalyResponse object''))
   \<and> extend (\<lambda>d e v. Inr d) resp0
       (AnomalyResponseObject (resp0\<lparr>confidence_band := None\<rparr>)) True heap0
     = (heap0, Some (ValueError (component_mismatch_error_msg ''confidence_band'')))
   \<and> (stat_sig_ts resp0 = None) \<noteq> (stat_sig_ts (resp0\<lparr>stat_sig_ts := Some 4\<rparr>) = None)
   \<and> extend (\<lambda>d e v. Inr d) resp0
       (AnomalyResponseObject (resp0\<lparr>stat_sig_ts := Some 4\<rparr>)) True heap0
     = (heap0, Some (ValueError (component_mismatch_error_msg ''stat_sig_ts'')))"
  using extend_structural_errors
          [of "\<lambda>d e v. Inr d" resp0 True heap0 "resp0\<lparr>confidence_band := None\<rparr>"]
        extend_structural_errors
          [of "\<lambda>d e v. Inr d" resp0 True heap0 "resp0\<lparr>stat_sig_ts := Some 4\<rparr>"]
  by (simp add: resp0_def)

section \<open>The pooled standard deviation\<close>





















section \<open>The spike scenario of the spec\<close>

lemma bind_five: "set_data five_values (ChangePointInterval 0 5 1) = Inr bound_five"
  by (simp add: five_values_def bound_five_def set_data_def ChangePointInterval_def
      is_univariate_def to_dataframe_def set_columns_def loc_between_def select_rows_def
      keep_rows_def)

lemma mean_five: "mean_val bound_five = Inr (NpFloat (Fin (104 / 5)))"
  by (simp add: bound_five_def mean_val_def data_def get_col_def np_mean_def fsum_def)

lemma variance_five: "variance_val bound_five = Inr (NpFloat (Fin (9801 / 5)))"
  by (simp add: bound_five_def variance_val_def data_def get_col_def np_var_ddof1_def
      np_mean_def fsum_def fsub_def)

lemmas bound_five_fields =
  bound_five_def [THEN arg_cong [where f = data_df], simplified]
  bound_five_def [THEN arg_cong [where f = num_series], simplified]
  bound_five_def [THEN arg_cong [where f = spike_std_threshold], simplified]
  bound_five_def [THEN arg_cong [where f = all_spikes], simplified]

lemma sqrt_five_table: "sqrt (9801 / 5) = 99 / sqrt 5"
proof -
  have "sqrt (9801 / 5) = sqrt (99\<^sup>2) / sqrt 5"
    by (simp add: real_sqrt_divide)
  then show ?thesis by simp
qed

lemma sqrt_5_bounds: "2 < sqrt 5" "sqrt 5 < 5 / 2"
proof -
  have "sqrt (2\<^sup>2) < sqrt 5" by (rule real_sqrt_less_mono) simp
  then show "2 < sqrt 5" by simp
  have "sqrt 5 < sqrt ((5 / 2)\<^sup>2)" by (rule real_sqrt_less_mono) (simp add: power2_eq_square)
  then show "sqrt 5 < 5 / 2" by simp
qed

lemma detect_five: "detect_spikes bound_five = (scored_five, Inr (Spikes []))"
  using sqrt_5_bounds
  by (simp add: detect_spikes_def detect_spikes_univariate_def mean_five variance_five
      bound_five_fields get_col_def series_op_def np_sqrt_def fsub_def set_col_def
      has_col_def spike_rows_def sqrt_five_table scored_five_def)

text \<open>
  Claim C4, as amended. For the values 1, 1, 1, 1, 100 and the default threshold 2.0
  the spike list is empty. The mean is 20.8 and the unbiased variance 1960.2, so the
  z-score of the value 100 is \<open>4 / sqrt 5\<close>, about 1.79 and below the threshold; the
  detection writes the z-scores into the table and the empty list into the memo.
\<close>

theorem five_values_no_spike:
  "set_data five_values (ChangePointInterval 0 5 1) = Inr bound_five
   \<and> spikes bound_five = (scored_five\<lparr>all_spikes := Some (Spikes [])\<rparr>, Inr (Spikes []))
   \<and> 4 * sqrt 5 / 5 < (2::real)"
  using sqrt_5_bounds
  by (simp add: bind_five spikes_def detect_five bound_five_fields)

text \<open>
  Claim C4 as stated fails: the list is empty, so the point with the value 100 is not
  in it.
\<close>

theorem five_values_spike_list_empty:
  "set_data five_values (ChangePointInterval 0 5 1) = Inr bound_five
   \<and> snd (spikes bound_five) = Inr (Spikes [])"
  by (simp add: bind_five spikes_def detect_five bound_five_fields)

section \<open>The spike memo\<close>

lemma bind_nine: "set_data nine_values (ChangePointInterval 0 9 1) = Inr bound_nine"
  by (simp add: nine_values_def bound_nine_def nine_table_def set_data_def
      ChangePointInterval_def is_univariate_def to_dataframe_def set_columns_def
      loc_between_def select_rows_def keep_rows_def)

lemma mean_nine: "mean_val bound_nine = Inr (NpFloat (Fin (1 / 3)))"
  by (simp add: bound_nine_def nine_table_def mean_val_def data_def get_col_def np_mean_def
      fsum_def)

lemma variance_nine: "variance_val bound_nine = Inr (NpFloat (Fin 1))"
  by (simp add: bound_nine_def nine_table_def variance_val_def data_def get_col_def
      np_var_ddof1_def np_mean_def fsum_def fsub_def)

lemmas bound_nine_fields =
  bound_nine_def [THEN arg_cong [where f = data_df], simplified]
  bound_nine_def [THEN arg_cong [where f = num_series], simplified]
  bound_nine_def [THEN arg_cong [where f = spike_std_threshold], simplified]
  bound_nine_def [THEN arg_cong [where f = all_spikes], simplified]

lemma detect_nine:
  "detect_spikes bound_nine
     = (bound_nine\<lparr>data_df := Some nine_scored_table\<rparr>, Inr (Spikes [spike_nine]))"
  by (simp add: detect_spikes_def detect_spikes_univariate_def mean_nine variance_nine
      bound_nine_fields nine_table_def nine_scored_table_def get_col_def series_op_def
      np_sqrt_def fsub_def set_col_def has_col_def spike_rows_def spike_nine_def)

lemma spikes_nine: "spikes bound_nine = (memo_nine, Inr (Spikes [spike_nine]))"
  by (simp add: spikes_def detect_nine bound_nine_fields) (simp add: bound_nine_def memo_nine_def)

lemma rebind_nine: "set_data two_flat memo_nine = Inr rebound"
  by (simp add: two_flat_def memo_nine_def rebound_def flat_table_def set_data_def
      is_univariate_def to_dataframe_def set_columns_def loc_between_def select_rows_def
      keep_rows_def)

lemma extend_nine: "extend_data two_flat memo_nine = Inr extended_nine"
  by (simp add: two_flat_def memo_nine_def extended_nine_def nine_scored_table_def
      nine_extended_table_def extend_data_def to_dataframe_def set_columns_def
      loc_between_def select_rows_def keep_rows_def pd_concat_def get_col_def has_col_def
      numeral_2_eq_2)

lemma spikes_rebound: "spikes rebound = (rebound, Inr (Spikes [spike_nine]))"
  by (simp add: spikes_def rebound_def memo_nine_def)

lemma detect_rebound: "snd (detect_spikes rebound) = Inr (Spikes [])"
  by (simp add: detect_spikes_def detect_spikes_univariate_def rebound_def memo_nine_def
      flat_table_def mean_val_def variance_val_def data_def get_col_def np_mean_def
      np_var_ddof1_def fsum_def fsub_def series_op_def np_sqrt_def set_col_def has_col_def
      spike_rows_def)

lemma set_data_all_spikes: "set_data d self = Inr self' \<Longrightarrow> all_spikes self' = all_spikes self"
  by (auto simp add: set_data_def Let_def split: sum.splits if_splits)

lemma extend_data_all_spikes:
  "extend_data d self = Inr self' \<Longrightarrow> all_spikes self' = all_spikes self"
  by (auto simp add: extend_data_def Let_def split: sum.splits)

text \<open>
  Claim C2, as amended. Neither binding a series nor extending the data touches the
  memo: once a spike list is memoized, the interval keeps it through \<^verbatim>\<open>data = ...\<close>
  and through \<^verbatim>\<open>extend_data\<close>, and the next access to \<^verbatim>\<open>spikes\<close> returns that list
  without looking at the new table.
\<close>

theorem memo_survives_bind_and_extend:
  "all_spikes self = Some sp \<Longrightarrow>
   set_data d self = Inr self' \<or> extend_data d self = Inr self' \<Longrightarrow>
   all_spikes self' = Some sp \<and> spikes self' = (self', Inr sp)"
  by (auto simp add: spikes_def dest: set_data_all_spikes extend_data_all_spikes)

theorem memo_survives_bind_and_extend_witness:
  "all_spikes memo_nine = Some (Spikes [spike_nine])
   \<and> set_data two_flat memo_nine = Inr rebound
   \<and> all_spikes rebound = Some (Spikes [spike_nine])
   \<and> spikes rebound = (rebound, Inr (Spikes [spike_nine]))
   \<and> extend_data two_flat memo_nine = Inr extended_nine
   \<and> all_spikes extended_nine = Some (Spikes [spike_nine])
   \<and> spikes extended_nine = (extended_nine, Inr (Spikes [spike_nine]))"
  using memo_survives_bind_and_extend [of memo_nine "Spikes [spike_nine]" two_flat rebound]
        memo_survives_bind_and_extend [of memo_nine "Spikes [spike_nine]" two_flat extended_nine]
  by (simp add: rebind_nine extend_nine) (simp add: memo_nine_def)

text \<open>
  Claim C2 as stated fails. The interval bound to the nine values memoizes one spike;
  bound again to the two equal values it still answers with that spike, while a
  detection on the table it now holds finds none.
\<close>

theorem stale_spikes_after_rebind:
  "set_data nine_values (ChangePointInterval 0 9 1) = Inr bound_nine
   \<and> spikes bound_nine = (memo_nine, Inr (Spikes [spike_nine]))
   \<and> set_data two_flat memo_nine = Inr rebound
   \<and> spikes rebound = (rebound, Inr (Spikes [spike_nine]))
   \<and> snd (detect_spikes rebound) = Inr (Spikes [])"
  by (simp add: bind_nine spikes_nine rebind_nine spikes_rebound detect_rebound)

section \<open>The columns written by spike detection\<close>

















section \<open>The effect of update on the receiver and on the store\<close>




lemma update_ts_slice_cong:
  "key_mapping a = key_mapping b \<Longrightarrow> ar_num_series a = ar_num_series b \<Longrightarrow>
   update_ts_slice a = update_ts_slice b"
  by (intro ext) (simp add: update_ts_slice_def Let_def cong: if_cong)






lemma update_ts_slice_fields [simp]:
  "update_ts_slice (self\<lparr>scores := r\<rparr>) = update_ts_slice self"
  "update_ts_slice (self\<lparr>confidence_band := cb\<rparr>) = update_ts_slice self"
  "update_ts_slice (self\<lparr>predicted_ts := p\<rparr>) = update_ts_slice self"
  "update_ts_slice (self\<lparr>anomaly_magnitude_ts := r\<rparr>) = update_ts_slice self"
  "update_ts_slice (self\<lparr>stat_sig_ts := p\<rparr>) = update_ts_slice self"
  by (rule update_ts_slice_cong; simp)+








section \<open>inplace_update with a time that is not there\<close>

lemma fill_where_none: "True \<notin> set rows \<Longrightarrow> fill_where rows v xs = xs"
  by (induction rows v xs rule: fill_where.induct) auto

lemma put_where_none: "True \<notin> set rows \<Longrightarrow> put_where rows vs xs = xs"
  by (induction rows vs xs rule: put_where.induct) (auto split: list.splits)

lemma map2_left: "length ys = length xs \<Longrightarrow> map2 (\<lambda>x y. x) xs ys = xs"
  by (induction xs ys rule: list_induct2') auto

lemma loc_set_none:
  assumes "True \<notin> set rows" "loc_set wc rows v x = Inr x'"
  shows "x' = x"
  using assms
  by (auto simp add: loc_set_def fill_where_none put_where_none map2_left
      split: tsvalue.splits val.splits if_splits)

lemma store_same: "store r (objs h r) h = h"
  by (simp add: store_def)

lemma inplace_update_ts_absent:
  assumes "t \<notin> set (ts_time (objs h r))"
  shows "\<exists>e. inplace_update_ts self (Some r) t v h = (h, e)"
proof (cases "loc_set (ar_num_series self \<noteq> 1) (map (\<lambda>x. x = t) (ts_time (objs h r))) v
                (ts_value (objs h r))")
  case (Inl e)
  then show ?thesis by (simp add: inplace_update_ts_def Let_def)
next
  case (Inr x')
  from assms have "True \<notin> set (map (\<lambda>x. x = t) (ts_time (objs h r)))" by auto
  from loc_set_none [OF this Inr] have "x' = ts_value (objs h r)" .
  with Inr show ?thesis by (simp add: inplace_update_ts_def Let_def store_same)
qed

lemma loc_set_fits:
  assumes "True \<notin> set rows" "fits self d v"
  shows "\<exists>x'. loc_set (ar_num_series self \<noteq> 1) rows v (ts_value d) = Inr x'"
  using assms
  by (auto simp add: loc_set_def fits_def is_float_def split: tsvalue.splits val.splits if_splits)

lemma inplace_update_ts_fits:
  assumes "t \<notin> set (ts_time (objs h r))" "fits self (objs h r) v"
  shows "inplace_update_ts self (Some r) t v h = (h, None)"
proof -
  from assms(1) have n: "True \<notin> set (map (\<lambda>x. x = t) (ts_time (objs h r)))" by auto
  from loc_set_fits [OF n assms(2)] obtain x' where
    x: "loc_set (ar_num_series self \<noteq> 1) (map (\<lambda>x. x = t) (ts_time (objs h r))) v
          (ts_value (objs h r)) = Inr x'" by blast
  from loc_set_none [OF n x] x show ?thesis
    by (simp add: inplace_update_ts_def Let_def store_same)
qed

lemma inplace_update_ts_None: "inplace_update_ts self None t v h = (h, None)"
  by (simp add: inplace_update_ts_def)

lemma run_steps_same:
  assumes "\<forall>f \<in> set fs. \<exists>e. f h = (h, e)"
  shows "\<exists>e. run_steps fs h = (h, e)"
  using assms
proof (induction fs)
  case Nil
  then show ?case by simp
next
  case (Cons f fs)
  then obtain e where "f h = (h, e)" by auto
  with Cons show ?case by (cases e) auto
qed

lemma run_steps_none:
  assumes "\<forall>f \<in> set fs. f h = (h, None)"
  shows "run_steps fs h = (h, None)"
  using assms by (induction fs) auto

text \<open>
  Claim C10, as amended. When the time occurs in none of the series of the bundle,
  \<^verbatim>\<open>inplace_update\<close> leaves the store as it is, whatever the values are and whether or
  not the call raises. It raises nothing when every value has the shape its series
  takes: a scalar in the univariate branch, a scalar or one entry per column in the
  multivariate branch.
\<close>

theorem inplace_update_absent_time:
  assumes "time_absent t h self"
  shows "(\<exists>e. inplace_update self t score ci_upper ci_lower pred anom_mag stat_sig h = (h, e))
         \<and> (values_fit h self score ci_upper ci_lower pred anom_mag stat_sig
            \<longrightarrow> inplace_update self t score ci_upper ci_lower pred anom_mag stat_sig h
                  = (h, None))"
proof
  show "\<exists>e. inplace_update self t score ci_upper ci_lower pred anom_mag stat_sig h = (h, e)"
    unfolding inplace_update_def
    using assms
    by (intro run_steps_same)
       (auto simp add: time_absent_def component_refs_def inplace_update_ts_absent
          inplace_update_ts_None split: option.splits)
next
  show "values_fit h self score ci_upper ci_lower pred anom_mag stat_sig
        \<longrightarrow> inplace_update self t score ci_upper ci_lower pred anom_mag stat_sig h = (h, None)"
  proof
    assume "values_fit h self score ci_upper ci_lower pred anom_mag stat_sig"
    with assms show "inplace_update self t score ci_upper ci_lower pred anom_mag stat_sig h
                     = (h, None)"
      unfolding inplace_update_def
      by (intro run_steps_none)
         (auto simp add: time_absent_def values_fit_def component_refs_def
            component_values_def inplace_update_ts_fits inplace_update_ts_None
            split: option.splits)
  qed
qed


theorem inplace_update_absent_time_witness:
  "time_absent 7 heap0 resp0
   \<and> values_fit heap0 resp0 (PyFloat (Fin 10)) (PyFloat (Fin 12)) (PyFloat (Fin 11))
        (PyFloat (Fin 13)) (PyFloat (Fin 14)) (PyFloat (Fin 15))
   \<and> inplace_update resp0 7 (PyFloat (Fin 10)) (PyFloat (Fin 12)) (PyFloat (Fin 11))
        (PyFloat (Fin 13)) (PyFloat (Fin 14)) (PyFloat (Fin 15)) heap0 = (heap0, None)
   \<and> time_absent 7 heap_ab resp_ab
   \<and> values_fit heap_ab resp_ab (NdArray [Fin 1, Fin 2]) (PyFloat (Fin 0)) (PyFloat (Fin 0))
        (PyFloat (Fin 0)) (NdArray [Fin 3, Fin 4]) (PyFloat (Fin 0))
   \<and> inplace_update resp_ab 7 (NdArray [Fin 1, Fin 2]) (PyFloat (Fin 0)) (PyFloat (Fin 0))
        (PyFloat (Fin 0)) (NdArray [Fin 3, Fin 4]) (PyFloat (Fin 0)) heap_ab = (heap_ab, None)"
proof -
  have a: "time_absent 7 heap0 resp0" "time_absent 7 heap_ab resp_ab"
    by (simp_all add: time_absent_def component_refs_def heap0_def resp0_def heap_ab_def
        resp_ab_def)
  have f: "values_fit heap0 resp0 (PyFloat (Fin 10)) (PyFloat (Fin 12)) (PyFloat (Fin 11))
        (PyFloat (Fin 13)) (PyFloat (Fin 14)) (PyFloat (Fin 15))"
     "values_fit heap_ab resp_ab (NdArray [Fin 1, Fin 2]) (PyFloat (Fin 0)) (PyFloat (Fin 0))
        (PyFloat (Fin 0)) (NdArray [Fin 3, Fin 4]) (PyFloat (Fin 0))"
    by (simp_all add: values_fit_def component_refs_def component_values_def fits_def
        is_float_def heap0_def resp0_def heap_ab_def resp_ab_def)
  from inplace_update_absent_time [OF a(1)] inplace_update_absent_time [OF a(2)] a f
  show ?thesis by blast
qed

text \<open>
  Claim C10 as stated fails on the error: in a univariate bundle an array of two values
  as score cannot be assigned to the empty selection of a three-point series, and
  pandas raises.
\<close>

theorem inplace_update_array_on_univariate_raises:
  "time_absent 7 heap0 resp0
   \<and> snd (inplace_update resp0 7 (NdArray [Fin 1, Fin 2]) (PyFloat (Fin 12))
             (PyFloat (Fin 11)) (PyFloat (Fin 13)) (PyFloat (Fin 14)) (PyFloat (Fin 15)) heap0)
       = Some (ValueError
           ''cannot set using a list-like indexer with a different length than the value'')"
  by (simp add: time_absent_def component_refs_def inplace_update_def inplace_update_ts_def
      loc_set_def count_true_def heap0_def resp0_def)

end
